theory Spec2Isabelle
  imports Main "HOL-Library.Word"
begin

unbundle bit_operations_syntax

section \<open>Python values, exceptions and the outside world\<close>

text \<open>
  The script \<^verbatim>\<open>main.py\<close> is modelled function by function. Values decoded from JSON
  are Python objects: \<^verbatim>\<open>None\<close>, \<^verbatim>\<open>bool\<close>, \<^verbatim>\<open>int\<close>, \<^verbatim>\<open>float\<close>
  (an IEEE double, kept as its 64 bits), \<^verbatim>\<open>str\<close>, \<^verbatim>\<open>list\<close> and \<^verbatim>\<open>dict\<close>
  (its items in insertion order).
\<close>

datatype json =
    JNull
  | JBool bool
  | JInt int
  | JFloat "64 word"
  | JString string
  | JArray "json list"
  | JObject "(string \<times> json) list"

text \<open>
  The exceptions that can travel through the script, all of them subclasses of
  \<^verbatim>\<open>Exception\<close> (interrupts of the process are outside the model). \<open>RequestsJSONDecodeError\<close> is
  \<^verbatim>\<open>requests.exceptions.JSONDecodeError\<close>, which derives from both
  \<^verbatim>\<open>requests.exceptions.RequestException\<close> (through \<^verbatim>\<open>InvalidJSONError\<close>) and
  \<^verbatim>\<open>json.JSONDecodeError\<close>; \<open>JSONDecodeError\<close> is the plain \<^verbatim>\<open>json.JSONDecodeError\<close>.
  \<open>UnboundLocalError\<close> is Python's subclass of \<^verbatim>\<open>NameError\<close> for a local variable
  read before assignment. \<open>ValueError\<close> is the plain \<^verbatim>\<open>ValueError\<close>, as
  \<^verbatim>\<open>urljoin\<close> raises on a malformed authority and \<^verbatim>\<open>json.loads\<close> on an integer of
  too many digits; \<open>RecursionError\<close> is what \<^verbatim>\<open>json.loads\<close> raises on a text nested
  too deeply. Neither is a \<^verbatim>\<open>RequestException\<close> or a \<^verbatim>\<open>json.JSONDecodeError\<close>.
\<close>

datatype exn =
    ConnectionError
  | Timeout
  | HTTPError nat
  | RequestsJSONDecodeError
  | JSONDecodeError
  | KeyError
  | IndexError
  | TypeError
  | UnboundLocalError
  | IntegrityError
  | OperationalError
  | PlaywrightError
  | FileNotFoundError
  | ValueError
  | RecursionError
  | OtherException string

fun is_RequestException :: "exn \<Rightarrow> bool" where
  "is_RequestException ConnectionError = True"
| "is_RequestException Timeout = True"
| "is_RequestException (HTTPError _) = True"
| "is_RequestException RequestsJSONDecodeError = True"
| "is_RequestException _ = False"

fun is_JSONDecodeError :: "exn \<Rightarrow> bool" where
  "is_JSONDecodeError RequestsJSONDecodeError = True"
| "is_JSONDecodeError JSONDecodeError = True"
| "is_JSONDecodeError _ = False"

fun is_NameError :: "exn \<Rightarrow> bool" where
  "is_NameError UnboundLocalError = True"
| "is_NameError _ = False"

record request =
  req_url :: string
  req_headers :: "(string \<times> string) list"
  req_json :: json

record response =
  status_code :: nat
  body_text :: string

text \<open>One constructor per \<^verbatim>\<open>print\<close> statement of the script.\<close>

datatype message =
    MsgApiError exn
  | MsgDecodeError json
  | MsgExtractError string exn
  | MsgScraping string
  | MsgFound nat
  | MsgProcessing string
  | MsgAnalysisComplete
  | MsgAnalysis json
  | MsgSaved string

text \<open>
  The observable effects of a run, in the order they happen: a line printed, a call of
  \<^verbatim>\<open>requests.post\<close>, a committed \<^verbatim>\<open>INSERT\<close> into \<^verbatim>\<open>seen_urls\<close>.
\<close>

datatype event =
    Print message
  | Post request
  | Commit string

text \<open>
  Everything the script obtains from outside: the environment variable, the resume file,
  the browser (the \<^verbatim>\<open>href\<close> attributes of the anchors the selector matches on a page, or
  the exception raised while loading it), \<^verbatim>\<open>urllib.parse.urljoin\<close> (the joined reference,
  or the exception it raises), the iteration order of a Python \<^verbatim>\<open>set\<close> of strings (given
  by a key on its elements), trafilatura, the remote service behind \<^verbatim>\<open>requests.post\<close>,
  the exception class by which \<^verbatim>\<open>Response.json()\<close> reports an undecodable body
  (\<^verbatim>\<open>requests.exceptions.JSONDecodeError\<close> since requests 2.27,
  \<^verbatim>\<open>json.JSONDecodeError\<close> before), the decoder \<^verbatim>\<open>json.loads\<close> (the decoded value, or
  the exception it raises: \<^verbatim>\<open>json.JSONDecodeError\<close> on a text that is not JSON, and others
  such as \<^verbatim>\<open>RecursionError\<close>) and SQLite's \<^verbatim>\<open>CURRENT_TIMESTAMP\<close> (read after a given
  number of events).
\<close>

record env =
  DEEPSEEK_API_KEY :: "string option"
  resume_txt :: "exn + string"
  page_hrefs :: "string \<Rightarrow> exn + string option list"
  urljoin :: "string \<Rightarrow> string \<Rightarrow> exn + string"
  set_order :: "string \<Rightarrow> nat"
  trafilatura_fetch_url :: "string \<Rightarrow> exn + string option"
  trafilatura_extract :: "string option \<Rightarrow> exn + string option"
  requests_post :: "request \<Rightarrow> exn + response"
  response_json_error :: exn
  json_loads :: "string \<Rightarrow> exn + json"
  current_timestamp :: "nat \<Rightarrow> nat"

text \<open>
  The state a run changes: the table \<^verbatim>\<open>seen_urls\<close> of \<^verbatim>\<open>jobs.db\<close> (rows of
  \<^verbatim>\<open>url\<close> and \<^verbatim>\<open>processed_at\<close>; \<open>None\<close> while the table does not exist) and
  the effects so far.
\<close>

record world =
  db :: "(string \<times> nat) list option"
  trace :: "event list"

definition emit :: "event \<Rightarrow> world \<Rightarrow> world" where
  "emit e w = w\<lparr>trace := trace w @ [e]\<rparr>"

section \<open>Python operations used by the script\<close>

text \<open>Truth value of an object in \<^verbatim>\<open>if analysis:\<close>.\<close>

fun truthy :: "json \<Rightarrow> bool" where
  "truthy JNull = False"
| "truthy (JBool b) = b"
| "truthy (JInt n) = (n \<noteq> 0)"
| "truthy (JFloat f) = (f AND 0x7FFFFFFFFFFFFFFF \<noteq> 0)"
| "truthy (JString s) = (s \<noteq> [])"
| "truthy (JArray xs) = (xs \<noteq> [])"
| "truthy (JObject kvs) = (kvs \<noteq> [])"

text \<open>Truth value of \<^verbatim>\<open>None\<close> or a \<^verbatim>\<open>str\<close>, as in \<^verbatim>\<open>if href:\<close>.\<close>

fun truthy_str :: "string option \<Rightarrow> bool" where
  "truthy_str None = False"
| "truthy_str (Some s) = (s \<noteq> [])"

text \<open>\<^verbatim>\<open>obj[key]\<close> with a string key.\<close>

fun getitem_str :: "json \<Rightarrow> string \<Rightarrow> exn + json" where
  "getitem_str (JObject kvs) k = (case map_of kvs k of None \<Rightarrow> Inl KeyError | Some v \<Rightarrow> Inr v)"
| "getitem_str _ k = Inl TypeError"

text \<open>
  \<^verbatim>\<open>obj[0]\<close>. The keys of a decoded JSON object are strings, so \<open>0\<close> is never one;
  of a string it is the first character, on which the next subscript of the script
  raises \<^verbatim>\<open>TypeError\<close>.
\<close>

fun getitem_0 :: "json \<Rightarrow> exn + json" where
  "getitem_0 (JArray []) = Inl IndexError"
| "getitem_0 (JArray (x # xs)) = Inr x"
| "getitem_0 (JString []) = Inl IndexError"
| "getitem_0 (JString (c # cs)) = Inr (JString [c])"
| "getitem_0 (JObject kvs) = Inl KeyError"
| "getitem_0 _ = Inl TypeError"

text \<open>
  \<^verbatim>\<open>json.loads(obj)\<close>: a \<^verbatim>\<open>TypeError\<close> unless \<open>obj\<close> is a string; on a string, what
  the decoder returns or raises.
\<close>

fun loads :: "env \<Rightarrow> json \<Rightarrow> exn + json" where
  "loads env (JString s) = json_loads env s"
| "loads env _ = Inl TypeError"

text \<open>\<^verbatim>\<open>response.raise_for_status()\<close>.\<close>

definition raise_for_status :: "response \<Rightarrow> exn option" where
  "raise_for_status r =
     (if 400 \<le> status_code r \<and> status_code r < 600 then Some (HTTPError (status_code r)) else None)"

text \<open>
  \<^verbatim>\<open>response.json()\<close>: the decoder applied to the body. A decode error is reported by
  the exception class of the installed requests; any other exception of the decoder
  passes through.
\<close>

definition response_json :: "env \<Rightarrow> response \<Rightarrow> exn + json" where
  "response_json env r =
     (case json_loads env (body_text r) of
        Inl e \<Rightarrow> Inl (if is_JSONDecodeError e then response_json_error env else e)
      | Inr v \<Rightarrow> Inr v)"

text \<open>
  \<^verbatim>\<open>list(set(xs))\<close>: the distinct elements, in the order the set iterates them.
\<close>

definition list_of_set :: "env \<Rightarrow> string list \<Rightarrow> string list" where
  "list_of_set env xs = sort_key (set_order env) (remdups xs)"

section \<open>The Comparator: \<^verbatim>\<open>analyze_with_deepseek\<close>\<close>

definition headers :: "env \<Rightarrow> (string \<times> string) list" where
  "headers env =
     [(''Content-Type'', ''application/json''),
      (''Authorization'', ''Bearer '' @ (case DEEPSEEK_API_KEY env of None \<Rightarrow> ''None'' | Some k \<Rightarrow> k))]"

definition prompt :: "string \<Rightarrow> string \<Rightarrow> string" where
  \<open>prompt job_text resume_text =
     ''\<newline>    You are an expert career coach and AI Engineering hiring manager. Analyze the job description and compare it to my resume. Provide a concise, structured analysis in JSON format.\<newline>\<newline>    MY RESUME:\<newline>    ---\<newline>    ''
     @ resume_text @
     ''\<newline>    ---\<newline>\<newline>    JOB DESCRIPTION:\<newline>    ---\<newline>    ''
     @ job_text @
     ''\<newline>    ---\<newline>\<newline>    Based on the comparison, provide a JSON object with ONLY the following keys:\<newline>    "job_title", "company_name", "match_score_10", "key_strengths", "potential_gaps", "summary_for_email", "keywords_to_add".\<newline>    ''\<close>

text \<open>The request body; \<open>0x3FC999999999999A\<close> is the double \<open>0.2\<close>.\<close>

definition data :: "string \<Rightarrow> string \<Rightarrow> json" where
  "data job_text resume_text =
     JObject
      [(''model'', JString ''deepseek-chat''),
       (''messages'',
          JArray [JObject [(''role'', JString ''user''),
                           (''content'', JString (prompt job_text resume_text))]]),
       (''temperature'', JFloat 0x3FC999999999999A),
       (''response_format'', JObject [(''type'', JString ''json_object'')])]"

definition api_request :: "env \<Rightarrow> string \<Rightarrow> string \<Rightarrow> request" where
  "api_request env job_text resume_text =
     \<lparr>req_url = ''https://api.deepseek.com/chat/completions'',
      req_headers = headers env,
      req_json = data job_text resume_text\<rparr>"

text \<open>\<^verbatim>\<open>response.json()["choices"][0]["message"]["content"]\<close>, applied to the decoded body.\<close>

definition result_content_of :: "json \<Rightarrow> exn + json" where
  "result_content_of body =
     (case getitem_str body ''choices'' of Inl e \<Rightarrow> Inl e
      | Inr choices \<Rightarrow>
     (case getitem_0 choices of Inl e \<Rightarrow> Inl e
      | Inr choice \<Rightarrow>
     (case getitem_str choice ''message'' of Inl e \<Rightarrow> Inl e
      | Inr msg \<Rightarrow> getitem_str msg ''content'')))"

text \<open>
  The statements of the \<^verbatim>\<open>try\<close> block after \<^verbatim>\<open>requests.post\<close> has returned. An
  exception is paired with the binding of the local \<^verbatim>\<open>result_content\<close> at the moment
  it is raised (\<open>None\<close>: not yet assigned).
\<close>

definition try_body :: "env \<Rightarrow> response \<Rightarrow> (exn \<times> json option) + json" where
  "try_body env r =
     (case raise_for_status r of Some e \<Rightarrow> Inl (e, None)
      | None \<Rightarrow>
     (case response_json env r of Inl e \<Rightarrow> Inl (e, None)
      | Inr body \<Rightarrow>
     (case result_content_of body of Inl e \<Rightarrow> Inl (e, None)
      | Inr result_content \<Rightarrow>
     (case loads env result_content of Inl e \<Rightarrow> Inl (e, Some result_content)
      | Inr v \<Rightarrow> Inr v))))"

text \<open>
  The two \<^verbatim>\<open>except\<close> clauses, tried in order, and the \<^verbatim>\<open>return None\<close> after them.
  The second one formats \<^verbatim>\<open>result_content\<close>; an exception neither clause matches
  propagates.
\<close>

definition except_clauses :: "exn \<times> json option \<Rightarrow> world \<Rightarrow> (exn + json) \<times> world" where
  "except_clauses er w =
     (case er of (e, result_content) \<Rightarrow>
        if is_RequestException e then (Inr JNull, emit (Print (MsgApiError e)) w)
        else if is_JSONDecodeError e then
          (case result_content of
             None \<Rightarrow> (Inl UnboundLocalError, w)
           | Some c \<Rightarrow> (Inr JNull, emit (Print (MsgDecodeError c)) w))
        else (Inl e, w))"

definition analyze_with_deepseek ::
  "env \<Rightarrow> string \<Rightarrow> string \<Rightarrow> world \<Rightarrow> (exn + json) \<times> world" where
  "analyze_with_deepseek env job_text resume_text w =
     (let req = api_request env job_text resume_text;
          w1 = emit (Post req) w
      in case requests_post env req of
           Inl e \<Rightarrow> except_clauses (e, None) w1
         | Inr r \<Rightarrow>
             (case try_body env r of
                Inl er \<Rightarrow> except_clauses er w1
              | Inr v \<Rightarrow> (Inr v, w1)))"

section \<open>The Seen-Store\<close>

definition setup_database :: "world \<Rightarrow> world" where
  "setup_database w = (case db w of None \<Rightarrow> w\<lparr>db := Some []\<rparr> | Some rows \<Rightarrow> w)"

definition is_url_new :: "string \<Rightarrow> world \<Rightarrow> exn + bool" where
  "is_url_new url w =
     (case db w of
        None \<Rightarrow> Inl OperationalError
      | Some rows \<Rightarrow> Inr (filter (\<lambda>row. fst row = url) rows = []))"

text \<open>
  \<^verbatim>\<open>url\<close> is the primary key: the \<^verbatim>\<open>INSERT\<close> of a present url raises
  \<^verbatim>\<open>sqlite3.IntegrityError\<close> and nothing is committed.
\<close>

definition add_url_to_db :: "env \<Rightarrow> string \<Rightarrow> world \<Rightarrow> (exn + unit) \<times> world" where
  "add_url_to_db env url w =
     (case db w of
        None \<Rightarrow> (Inl OperationalError, w)
      | Some rows \<Rightarrow>
          if url \<in> fst ` set rows then (Inl IntegrityError, w)
          else (Inr (),
                emit (Commit url)
                  (w\<lparr>db := Some (rows @ [(url, current_timestamp env (length (trace w)))])\<rparr>)))"

section \<open>The Content Extractor: \<^verbatim>\<open>get_clean_text_from_url\<close>\<close>

definition get_clean_text_from_url :: "env \<Rightarrow> string \<Rightarrow> world \<Rightarrow> string option \<times> world" where
  "get_clean_text_from_url env url w =
     (case trafilatura_fetch_url env url of
        Inl e \<Rightarrow> (None, emit (Print (MsgExtractError url e)) w)
      | Inr downloaded \<Rightarrow>
          (case trafilatura_extract env downloaded of
             Inl e \<Rightarrow> (None, emit (Print (MsgExtractError url e)) w)
           | Inr clean_text \<Rightarrow> (clean_text, w)))"

section \<open>The Link Discoverer: \<^verbatim>\<open>find_new_job_links\<close>\<close>

text \<open>
  The relative-link step on one \<^verbatim>\<open>href\<close> attribute (\<open>None\<close>: no attribute). An
  exception of \<^verbatim>\<open>urljoin\<close> is caught nowhere.
\<close>

definition resolve_href :: "env \<Rightarrow> string \<Rightarrow> string option \<Rightarrow> exn + string option" where
  "resolve_href env target_page_url href =
     (case href of
        None \<Rightarrow> Inr None
      | Some h \<Rightarrow>
          if h \<noteq> [] \<and> take 4 h \<noteq> ''http'' then
            (case urljoin env target_page_url h of
               Inl e \<Rightarrow> Inl e
             | Inr joined \<Rightarrow> Inr (Some joined))
          else Inr (Some h))"

text \<open>The \<^verbatim>\<open>for link_locator in links\<close> loop, with \<open>new_links\<close> as accumulator.\<close>

fun links_loop ::
  "env \<Rightarrow> string \<Rightarrow> string option list \<Rightarrow> string list \<Rightarrow> world \<Rightarrow> exn + string list" where
  "links_loop env target_page_url [] new_links w = Inr new_links"
| "links_loop env target_page_url (a # links) new_links w =
     (case resolve_href env target_page_url a of
        Inl e \<Rightarrow> Inl e
      | Inr None \<Rightarrow> links_loop env target_page_url links new_links w
      | Inr (Some href) \<Rightarrow>
          if href = [] then links_loop env target_page_url links new_links w
          else
            (case is_url_new href w of
               Inl e \<Rightarrow> Inl e
             | Inr new \<Rightarrow>
                 links_loop env target_page_url links
                   (if new then new_links @ [href] else new_links) w))"

definition find_new_job_links :: "env \<Rightarrow> string \<Rightarrow> world \<Rightarrow> (exn + string list) \<times> world" where
  "find_new_job_links env target_page_url w =
     (let w1 = emit (Print (MsgScraping target_page_url)) w
      in case page_hrefs env target_page_url of
           Inl e \<Rightarrow> (Inl e, w1)
         | Inr links \<Rightarrow>
             (case links_loop env target_page_url links [] w1 of
                Inl e \<Rightarrow> (Inl e, w1)
              | Inr new_links \<Rightarrow> (Inr (list_of_set env new_links), w1)))"

section \<open>The Pipeline Orchestrator: the script body\<close>

text \<open>
  The \<^verbatim>\<open>for url in new_job_urls\<close> loop. The result is the world at the end and the
  exception that ended the run, if one did.
\<close>

fun process_jobs :: "env \<Rightarrow> string \<Rightarrow> string list \<Rightarrow> world \<Rightarrow> exn option \<times> world" where
  "process_jobs env my_resume [] w = (None, w)"
| "process_jobs env my_resume (url # urls) w =
     (case get_clean_text_from_url env url (emit (Print (MsgProcessing url)) w) of
        (job_description, w1) \<Rightarrow>
          (case job_description of
             None \<Rightarrow> process_jobs env my_resume urls w1
           | Some jd \<Rightarrow>
               if jd = [] then process_jobs env my_resume urls w1
               else
                 (case analyze_with_deepseek env jd my_resume w1 of
                    (Inl e, w2) \<Rightarrow> (Some e, w2)
                  | (Inr analysis, w2) \<Rightarrow>
                      if truthy analysis then
                        (case add_url_to_db env url
                                (emit (Print (MsgAnalysis analysis))
                                   (emit (Print MsgAnalysisComplete) w2)) of
                           (Inl e, w3) \<Rightarrow> (Some e, w3)
                         | (Inr u, w3) \<Rightarrow>
                             process_jobs env my_resume urls (emit (Print (MsgSaved url)) w3))
                      else process_jobs env my_resume urls w2)))"

definition TARGET_URL :: string where
  "TARGET_URL = ''https://jobs.cisco.com/jobs/SearchJobs/internship''"

definition main :: "env \<Rightarrow> world \<Rightarrow> exn option \<times> world" where
  "main env w =
     (let w1 = setup_database w
      in case resume_txt env of
           Inl e \<Rightarrow> (Some e, w1)
         | Inr my_resume \<Rightarrow>
             (case find_new_job_links env TARGET_URL w1 of
                (Inl e, w2) \<Rightarrow> (Some e, w2)
              | (Inr new_job_urls, w2) \<Rightarrow>
                  process_jobs env my_resume new_job_urls
                    (emit (Print (MsgFound (length new_job_urls))) w2)))"

section \<open>Predicates of the specification\<close>

text \<open>
  The AnalysisResult of the specification, over the keys the prompt asks for: strings,
  lists of strings, and an integer score from 0 to 10.
\<close>

definition is_str :: "json \<Rightarrow> bool" where
  "is_str j = (case j of JString s \<Rightarrow> True | _ \<Rightarrow> False)"

definition is_str_list :: "json \<Rightarrow> bool" where
  "is_str_list j = (case j of JArray xs \<Rightarrow> list_all is_str xs | _ \<Rightarrow> False)"

definition is_score :: "json \<Rightarrow> bool" where
  "is_score j = (case j of JInt n \<Rightarrow> 0 \<le> n \<and> n \<le> 10 | _ \<Rightarrow> False)"

definition field :: "(json \<Rightarrow> bool) \<Rightarrow> (string \<times> json) list \<Rightarrow> string \<Rightarrow> bool" where
  "field P kvs k = (case map_of kvs k of None \<Rightarrow> False | Some v \<Rightarrow> P v)"

definition AnalysisResult :: "json \<Rightarrow> bool" where
  "AnalysisResult j =
     (case j of
        JObject kvs \<Rightarrow>
          field is_str kvs ''job_title'' \<and> field is_str kvs ''company_name'' \<and>
          field is_score kvs ''match_score_10'' \<and> field is_str_list kvs ''key_strengths'' \<and>
          field is_str_list kvs ''potential_gaps'' \<and> field is_str kvs ''summary_for_email'' \<and>
          field is_str_list kvs ''keywords_to_add''
      | _ \<Rightarrow> False)"

text \<open>
  The reply to the request for \<open>job_text\<close> and \<open>resume_text\<close> decodes to \<open>v\<close>: the
  status is no error status, the body decodes, \<^verbatim>\<open>choices[0].message.content\<close> is a
  string, and that string decodes to \<open>v\<close>.
\<close>

definition reply_decodes_to :: "env \<Rightarrow> string \<Rightarrow> string \<Rightarrow> json \<Rightarrow> bool" where
  "reply_decodes_to env job_text resume_text v =
     (case requests_post env (api_request env job_text resume_text) of
        Inl e \<Rightarrow> False
      | Inr r \<Rightarrow>
          raise_for_status r = None \<and>
          (case json_loads env (body_text r) of
             Inl e \<Rightarrow> False
           | Inr body \<Rightarrow>
               (case result_content_of body of
                  Inr (JString c) \<Rightarrow> json_loads env c = Inr v
                | _ \<Rightarrow> False)))"


text \<open>
  The Seen-Store's \<open>contains\<close> of the specification: \<^verbatim>\<open>is_url_new\<close> answers
  \<^verbatim>\<open>False\<close>.
\<close>

definition contains :: "string \<Rightarrow> world \<Rightarrow> bool" where
  "contains url w = (is_url_new url w = Inr False)"

text \<open>
  The discovered identifiers of the specification: the link targets of the anchors, in
  page order, each resolved by the relative-link step, anchors without a target or with
  an empty one skipped; or the first exception of a resolution.
\<close>

fun discover :: "env \<Rightarrow> string \<Rightarrow> string option list \<Rightarrow> exn + string list" where
  "discover env page_url [] = Inr []"
| "discover env page_url (a # links) =
     (case resolve_href env page_url a of
        Inl e \<Rightarrow> Inl e
      | Inr None \<Rightarrow> discover env page_url links
      | Inr (Some href) \<Rightarrow>
          (case discover env page_url links of
             Inl e \<Rightarrow> Inl e
           | Inr ds \<Rightarrow> Inr (if href = [] then ds else href # ds)))"

text \<open>
  What \<^verbatim>\<open>get_clean_text_from_url\<close> and \<^verbatim>\<open>analyze_with_deepseek\<close> return. Neither value
  depends on the store or on earlier output (\<open>fst_get_clean_text\<close>, \<open>fst_analyze\<close>), so
  both are read off at an empty world.
\<close>

definition returned_text :: "env \<Rightarrow> string \<Rightarrow> string option" where
  "returned_text env url = fst (get_clean_text_from_url env url \<lparr>db = None, trace = []\<rparr>)"

definition returned_analysis :: "env \<Rightarrow> string \<Rightarrow> string \<Rightarrow> exn + json" where
  "returned_analysis env job_text resume_text =
     fst (analyze_with_deepseek env job_text resume_text \<lparr>db = None, trace = []\<rparr>)"

text \<open>
  The two guards of the loop, \<^verbatim>\<open>if job_description:\<close> and \<^verbatim>\<open>if analysis:\<close>, on what
  extraction and comparison return for an identifier: a text that is not empty, and an
  object that counts as true.
\<close>

definition both_truthy :: "env \<Rightarrow> string \<Rightarrow> string \<Rightarrow> bool" where
  "both_truthy env my_resume url =
     (case returned_text env url of
        None \<Rightarrow> False
      | Some jd \<Rightarrow>
          jd \<noteq> [] \<and>
          (case returned_analysis env jd my_resume of Inl e \<Rightarrow> False | Inr a \<Rightarrow> truthy a))"


text \<open>
  The identifiers a list of effects shows the loop to have started on, those for which the
  line \<^verbatim>\<open>--- Processing new job: ... ---\<close> was printed; and a list of effects with no
  such line.
\<close>

definition no_processing :: "event list \<Rightarrow> bool" where
  "no_processing evs = (\<forall>u. Print (MsgProcessing u) \<notin> set evs)"

definition processed :: "event list \<Rightarrow> string set" where
  "processed evs = {u. Print (MsgProcessing u) \<in> set evs}"


text \<open>
  The operations that touch the Seen-Store after an identifier has been recorded:
  \<^verbatim>\<open>setup_database\<close>, an \<^verbatim>\<open>add_url_to_db\<close>, the loop of the script on any list, and a
  whole further run of the script; and the world after a sequence of them.
\<close>

datatype store_op =
    Setup
  | Add env string
  | Loop env string "string list"
  | Run env

fun store_op_apply :: "store_op \<Rightarrow> world \<Rightarrow> world" where
  "store_op_apply Setup w = setup_database w"
| "store_op_apply (Add env url) w = snd (add_url_to_db env url w)"
| "store_op_apply (Loop env my_resume urls) w = snd (process_jobs env my_resume urls w)"
| "store_op_apply (Run env) w = snd (main env w)"

definition thereafter :: "store_op list \<Rightarrow> world \<Rightarrow> world" where
  "thereafter ops w = fold store_op_apply ops w"

section \<open>An example run\<close>

text \<open>
  One listing page with one posting, whose text is extracted, and a service that answers
  with status 200 and a generated text holding a single key with score 11.
\<close>

definition demo_url :: string where
  "demo_url = ''https://jobs.cisco.com/jobs/ProjectDetail/1''"

definition demo_content :: string where
  \<open>demo_content = ''{"match_score_10": 11}''\<close>

definition demo_body :: string where
  \<open>demo_body =
     ''{"choices": [{"message": {"role": "assistant", "content": "{'' @ [CHR 0x5C] @
     ''"match_score_10'' @ [CHR 0x5C] @ ''": 11}"}}]}''\<close>

definition demo_analysis :: json where
  "demo_analysis = JObject [(''match_score_10'', JInt 11)]"

definition demo_envelope :: json where
  "demo_envelope =
     JObject [(''choices'',
       JArray [JObject [(''message'',
         JObject [(''role'', JString ''assistant''), (''content'', JString demo_content)])]])]"

text \<open>
  \<^verbatim>\<open>json.loads\<close> on the texts of the examples; other texts count as no JSON.
\<close>

definition demo_loads :: "string \<Rightarrow> exn + json" where
  \<open>demo_loads s =
     (if s = demo_body then Inr demo_envelope
      else if s = demo_content then Inr demo_analysis
      else if s = ''{"choices": []}'' then Inr (JObject [(''choices'', JArray [])])
      else if s = ''{"choices": [{"message": {"content": "{}"}}]}'' then
        Inr (JObject [(''choices'',
               JArray [JObject [(''message'', JObject [(''content'', JString ''{}'')])]])])
      else if s = ''{}'' then Inr (JObject [])
      else Inl JSONDecodeError)\<close>

text \<open>\<^verbatim>\<open>urljoin\<close> on the two relative references the examples resolve.\<close>

definition demo_urljoin :: "string \<Rightarrow> string \<Rightarrow> exn + string" where
  "demo_urljoin base h =
     (if base = ''https://x/careers'' \<and> h = ''/jobs/2'' then Inr ''https://x/jobs/2''
      else if base = ''https://x/careers'' \<and> h = ''httpdocs/jobs/7''
        then Inr ''https://x/httpdocs/jobs/7''
      else Inr h)"

definition demo_env :: env where
  "demo_env =
     \<lparr>DEEPSEEK_API_KEY = Some ''sk-demo'',
      resume_txt = Inr ''Python and SQL'',
      page_hrefs = (\<lambda>u. Inr [Some demo_url]),
      urljoin = demo_urljoin,
      set_order = length,
      trafilatura_fetch_url = (\<lambda>u. Inr (Some ''<html><p>Intern, data team</p></html>'')),
      trafilatura_extract =
        (\<lambda>d. Inr (case d of None \<Rightarrow> None | Some h \<Rightarrow> Some ''Intern, data team'')),
      requests_post = (\<lambda>req. Inr \<lparr>status_code = 200, body_text = demo_body\<rparr>),
      response_json_error = RequestsJSONDecodeError,
      json_loads = demo_loads,
      current_timestamp = (\<lambda>n. n)\<rparr>"

definition world0 :: world where
  "world0 = \<lparr>db = Some [], trace = []\<rparr>"

text \<open>
  Variants of the example: the service answers 200 with an HTML page, under either class
  of decode exception; the credential variable is not set.
\<close>

definition demo_env_html :: env where
  "demo_env_html =
     demo_env\<lparr>requests_post :=
       (\<lambda>req. Inr \<lparr>status_code = 200, body_text = ''<html>502 Bad Gateway</html>''\<rparr>)\<rparr>"

definition demo_env_html_old :: env where
  "demo_env_html_old = demo_env_html\<lparr>response_json_error := JSONDecodeError\<rparr>"

definition demo_env_no_key :: env where
  "demo_env_no_key = demo_env\<lparr>DEEPSEEK_API_KEY := None\<rparr>"

text \<open>The listing page of the example cannot be loaded.\<close>

definition demo_env_page_down :: env where
  "demo_env_page_down = demo_env\<lparr>page_hrefs := (\<lambda>u. Inl PlaywrightError)\<rparr>"

text \<open>
  Further pages and stores for the examples: a page listing a recorded posting and a new
  one through a relative link; a page whose only link is the relative reference
  \<^verbatim>\<open>httpdocs/jobs/7\<close>; a store holding \<^verbatim>\<open>https://x/jobs/1\<close>.
\<close>

definition demo_env_x :: env where
  "demo_env_x =
     demo_env\<lparr>page_hrefs := (\<lambda>u. Inr [Some ''https://x/jobs/1'', Some ''/jobs/2''])\<rparr>"

definition demo_env_httpdocs :: env where
  "demo_env_httpdocs = demo_env\<lparr>page_hrefs := (\<lambda>u. Inr [Some ''httpdocs/jobs/7''])\<rparr>"

definition world_seen_1 :: world where
  "world_seen_1 = \<lparr>db = Some [(''https://x/jobs/1'', 0)], trace = []\<rparr>"

text \<open>
  Further examples: a second posting whose download fails; a service that answers 503;
  two postings and a service that answers 200 with an empty list of choices; a service
  whose generated text is the empty object; the two identifiers of the specification's
  scenario on the listing page of the script; a store that already holds the posting of
  the example.
\<close>

definition demo_url2 :: string where
  "demo_url2 = ''https://jobs.cisco.com/jobs/ProjectDetail/22''"

definition demo_env_two :: env where
  "demo_env_two =
     demo_env\<lparr>page_hrefs := (\<lambda>u. Inr [Some demo_url, Some demo_url2]),
              trafilatura_fetch_url :=
                (\<lambda>u. if u = demo_url2 then Inr None
                     else Inr (Some ''<html><p>Intern, data team</p></html>''))\<rparr>"

definition demo_env_503 :: env where
  "demo_env_503 =
     demo_env\<lparr>requests_post :=
       (\<lambda>req. Inr \<lparr>status_code = 503, body_text = ''Service Unavailable''\<rparr>)\<rparr>"

definition demo_env_no_choices :: env where
  \<open>demo_env_no_choices =
     demo_env\<lparr>page_hrefs := (\<lambda>u. Inr [Some demo_url, Some demo_url2]),
              requests_post :=
                (\<lambda>req. Inr \<lparr>status_code = 200, body_text = ''{"choices": []}''\<rparr>)\<rparr>\<close>


definition demo_env_seen_1 :: env where
  "demo_env_seen_1 =
     demo_env\<lparr>page_hrefs := (\<lambda>u. Inr [Some ''https://x/jobs/1'', Some ''https://x/jobs/2''])\<rparr>"


section \<open>Properties\<close>

subsection \<open>The example texts\<close>

lemma demo_texts_differ: "demo_body \<noteq> demo_content" "demo_content \<noteq> demo_body"
  by (simp_all add: demo_body_def demo_content_def)

lemma demo_loads_simps:
  "demo_loads demo_body = Inr demo_envelope"
  "demo_loads demo_content = Inr demo_analysis"
  by (simp_all add: demo_loads_def demo_texts_differ)

lemma demo_result_content: "result_content_of demo_envelope = Inr (JString demo_content)"
  by (simp add: result_content_of_def demo_envelope_def)

subsection \<open>The Comparator\<close>

lemma fst_except_clauses_Inr: "fst (except_clauses er w) = Inr v \<Longrightarrow> v = JNull"
  by (auto simp: except_clauses_def split: prod.splits if_splits option.splits)

lemma loads_Inr: "loads env rc = Inr v \<longleftrightarrow> (\<exists>c. rc = JString c \<and> json_loads env c = Inr v)"
  by (cases rc) simp_all

lemma try_body_Inr:
  "try_body env r = Inr v \<longleftrightarrow>
     raise_for_status r = None \<and>
     (\<exists>body c. json_loads env (body_text r) = Inr body \<and>
        result_content_of body = Inr (JString c) \<and> json_loads env c = Inr v)"
proof (cases "raise_for_status r")
  case (Some e)
  then show ?thesis by (simp add: try_body_def)
next
  case None
  show ?thesis
  proof (cases "json_loads env (body_text r)")
    case (Inl e)
    with None show ?thesis by (simp add: try_body_def response_json_def)
  next
    case body: (Inr body)
    show ?thesis
    proof (cases "result_content_of body")
      case (Inl e)
      with None body show ?thesis by (simp add: try_body_def response_json_def)
    next
      case (Inr rc)
      show ?thesis
      proof (cases "loads env rc")
        case l: (Inl e)
        with None body Inr loads_Inr [of env rc v] show ?thesis
          by (simp add: try_body_def response_json_def)
      next
        case l: (Inr v')
        with None body Inr loads_Inr [of env rc v] show ?thesis
          by (simp add: try_body_def response_json_def)
      qed
    qed
  qed
qed

lemma reply_decodes_to_iff:
  "reply_decodes_to env job_text resume_text v \<longleftrightarrow>
     (\<exists>r. requests_post env (api_request env job_text resume_text) = Inr r \<and> try_body env r = Inr v)"
proof (cases "requests_post env (api_request env job_text resume_text)")
  case (Inl e)
  then show ?thesis by (simp add: reply_decodes_to_def)
next
  case (Inr r)
  show ?thesis
  proof (cases "json_loads env (body_text r)")
    case (Inl e)
    with Inr show ?thesis by (simp add: reply_decodes_to_def try_body_Inr)
  next
    case body: (Inr body)
    show ?thesis
    proof (cases "result_content_of body")
      case (Inl e)
      with Inr body show ?thesis by (simp add: reply_decodes_to_def try_body_Inr)
    next
      case rc: (Inr rc)
      with Inr body show ?thesis
        by (cases rc) (simp_all add: reply_decodes_to_def try_body_Inr)
    qed
  qed
qed

lemma fst_analyze_cases:
  "fst (analyze_with_deepseek env job_text resume_text w) =
     (case requests_post env (api_request env job_text resume_text) of
        Inl e \<Rightarrow> fst (except_clauses (e, None) (emit (Post (api_request env job_text resume_text)) w))
      | Inr r \<Rightarrow>
          (case try_body env r of
             Inl er \<Rightarrow> fst (except_clauses er (emit (Post (api_request env job_text resume_text)) w))
           | Inr v \<Rightarrow> Inr v))"
  by (simp add: analyze_with_deepseek_def Let_def split: sum.splits)

text \<open>
  C1 (schema conformance), as the code has it. \<^verbatim>\<open>analyze_with_deepseek\<close> makes no check
  of the decoded value: whenever the reply decodes to a value \<open>v\<close>, the function returns
  exactly \<open>v\<close>, whatever its fields, their types and the score; and a returned value
  other than \<^verbatim>\<open>None\<close> is always such a decoded reply.
\<close>

theorem analyze_returns_decoded_reply:
  "(reply_decodes_to env job_text resume_text v \<longrightarrow>
      fst (analyze_with_deepseek env job_text resume_text w) = Inr v) \<and>
   (fst (analyze_with_deepseek env job_text resume_text w) = Inr v \<and> v \<noteq> JNull \<longrightarrow>
      reply_decodes_to env job_text resume_text v)"
proof (intro conjI impI)
  assume "reply_decodes_to env job_text resume_text v"
  then obtain r where "requests_post env (api_request env job_text resume_text) = Inr r"
    and "try_body env r = Inr v"
    unfolding reply_decodes_to_iff by blast
  then show "fst (analyze_with_deepseek env job_text resume_text w) = Inr v"
    by (simp add: fst_analyze_cases)
next
  assume a: "fst (analyze_with_deepseek env job_text resume_text w) = Inr v \<and> v \<noteq> JNull"
  show "reply_decodes_to env job_text resume_text v"
  proof (cases "requests_post env (api_request env job_text resume_text)")
    case (Inl e)
    with a show ?thesis
      using fst_except_clauses_Inr by (fastforce simp: fst_analyze_cases)
  next
    case (Inr r)
    show ?thesis
    proof (cases "try_body env r")
      case (Inl er)
      with a Inr show ?thesis
        using fst_except_clauses_Inr by (fastforce simp: fst_analyze_cases)
    next
      case v: (Inr v')
      with a Inr show ?thesis
        by (simp add: fst_analyze_cases reply_decodes_to_iff)
    qed
  qed
qed

theorem analyze_returns_decoded_reply_witness:
  "reply_decodes_to demo_env ''Intern, data team'' ''Python and SQL'' demo_analysis \<and>
   fst (analyze_with_deepseek demo_env ''Intern, data team'' ''Python and SQL'' world0) =
     Inr demo_analysis"
proof -
  have h: "reply_decodes_to demo_env ''Intern, data team'' ''Python and SQL'' demo_analysis"
    by (simp add: reply_decodes_to_def demo_env_def raise_for_status_def
        demo_loads_simps demo_result_content)
  with analyze_returns_decoded_reply
         [of demo_env "''Intern, data team''" "''Python and SQL''" demo_analysis world0]
  show ?thesis by simp
qed

text \<open>
  The statement of the specification fails: on the example reply the function returns an object that is
  not \<^verbatim>\<open>None\<close>, lacks six of the seven fields and holds the score 11.
\<close>

theorem schema_conformance_counterexample:
  "fst (analyze_with_deepseek demo_env ''Intern, data team'' ''Python and SQL'' world0) =
     Inr demo_analysis \<and>
   demo_analysis \<noteq> JNull \<and> \<not> AnalysisResult demo_analysis"
  by (simp add: analyze_with_deepseek_def demo_env_def try_body_def raise_for_status_def
      response_json_def demo_loads_simps demo_result_content AnalysisResult_def field_def
      demo_analysis_def is_score_def is_str_def)

lemma demo_loads_html: "demo_loads ''<html>502 Bad Gateway</html>'' = Inl JSONDecodeError"
  by (simp add: demo_loads_def demo_body_def demo_content_def)

text \<open>
  C10 (undecodable body), as the code has it. When the reply has no error status and its
  body is not valid JSON (the decoder raises \<^verbatim>\<open>json.JSONDecodeError\<close> on it),
  \<^verbatim>\<open>response.json()\<close> raises before \<^verbatim>\<open>result_content\<close> is assigned. What follows
  depends on the class of that exception: a \<^verbatim>\<open>RequestException\<close> (as
  \<^verbatim>\<open>requests.exceptions.JSONDecodeError\<close> is) is caught by the first \<^verbatim>\<open>except\<close> clause and the function returns \<^verbatim>\<open>None\<close>; a
  \<^verbatim>\<open>json.JSONDecodeError\<close> that is no \<^verbatim>\<open>RequestException\<close> reaches the second clause,
  which reads the unbound \<^verbatim>\<open>result_content\<close>, and the function raises
  \<^verbatim>\<open>UnboundLocalError\<close>; any other exception propagates.
\<close>

theorem analyze_undecodable_body:
  assumes "requests_post env (api_request env job_text resume_text) = Inr r"
    and "raise_for_status r = None"
    and "json_loads env (body_text r) = Inl JSONDecodeError"
  shows "fst (analyze_with_deepseek env job_text resume_text w) =
     (if is_RequestException (response_json_error env) then Inr JNull
      else if is_JSONDecodeError (response_json_error env) then Inl UnboundLocalError
      else Inl (response_json_error env))"
  using assms
  by (simp add: fst_analyze_cases try_body_def response_json_def except_clauses_def)

theorem analyze_undecodable_body_witness:
  "requests_post demo_env_html_old
       (api_request demo_env_html_old ''Intern, data team'' ''Python and SQL'') =
     Inr \<lparr>status_code = 200, body_text = ''<html>502 Bad Gateway</html>''\<rparr> \<and>
   raise_for_status \<lparr>status_code = 200, body_text = ''<html>502 Bad Gateway</html>''\<rparr> = None \<and>
   json_loads demo_env_html_old ''<html>502 Bad Gateway</html>'' = Inl JSONDecodeError \<and>
   fst (analyze_with_deepseek demo_env_html_old ''Intern, data team'' ''Python and SQL'' world0) =
     Inl UnboundLocalError \<and>
   is_NameError UnboundLocalError"
  using analyze_undecodable_body
     [of demo_env_html_old "''Intern, data team''" "''Python and SQL''"
         "\<lparr>status_code = 200, body_text = ''<html>502 Bad Gateway</html>''\<rparr>" world0]
  by (simp add: demo_env_html_old_def demo_env_html_def demo_env_def raise_for_status_def
      demo_loads_html)

text \<open>
  The unconditional statement fails where \<^verbatim>\<open>response.json()\<close> raises
  \<^verbatim>\<open>requests.exceptions.JSONDecodeError\<close>: status 200, an HTML body, and the function
  returns \<^verbatim>\<open>None\<close>.
\<close>

theorem undecodable_body_counterexample:
  "requests_post demo_env_html
       (api_request demo_env_html ''Intern, data team'' ''Python and SQL'') =
     Inr \<lparr>status_code = 200, body_text = ''<html>502 Bad Gateway</html>''\<rparr> \<and>
   raise_for_status \<lparr>status_code = 200, body_text = ''<html>502 Bad Gateway</html>''\<rparr> = None \<and>
   json_loads demo_env_html ''<html>502 Bad Gateway</html>'' = Inl JSONDecodeError \<and>
   fst (analyze_with_deepseek demo_env_html ''Intern, data team'' ''Python and SQL'' world0) =
     Inr JNull"
  by (simp add: fst_analyze_cases try_body_def response_json_def except_clauses_def
      demo_env_html_def demo_env_def raise_for_status_def demo_loads_html)

subsection \<open>Effects of the Comparator\<close>

lemma trace_except_clauses:
  "\<exists>evs. trace (snd (except_clauses er w)) = trace w @ evs \<and>
     (\<forall>e\<in>set evs. \<exists>m. e = Print m \<and> (\<forall>u. m \<noteq> MsgProcessing u))"
  by (cases er) (simp add: except_clauses_def emit_def split: option.splits)

lemma db_except_clauses: "db (snd (except_clauses er w)) = db w"
  by (cases er) (simp add: except_clauses_def emit_def split: option.splits)

lemma snd_analyze_cases:
  "snd (analyze_with_deepseek env job_text resume_text w) =
     (case requests_post env (api_request env job_text resume_text) of
        Inl e \<Rightarrow> snd (except_clauses (e, None) (emit (Post (api_request env job_text resume_text)) w))
      | Inr r \<Rightarrow>
          (case try_body env r of
             Inl er \<Rightarrow> snd (except_clauses er (emit (Post (api_request env job_text resume_text)) w))
           | Inr v \<Rightarrow> emit (Post (api_request env job_text resume_text)) w))"
  by (simp add: analyze_with_deepseek_def Let_def split: sum.splits)

lemma db_analyze: "db (snd (analyze_with_deepseek env job_text resume_text w)) = db w"
  by (simp add: snd_analyze_cases db_except_clauses emit_def split: sum.splits)

lemma trace_analyze:
  "\<exists>evs. trace (snd (analyze_with_deepseek env job_text resume_text w)) =
      trace w @ Post (api_request env job_text resume_text) # evs \<and>
      (\<forall>e\<in>set evs. \<exists>m. e = Print m \<and> (\<forall>u. m \<noteq> MsgProcessing u))"
proof -
  let ?w1 = "emit (Post (api_request env job_text resume_text)) w"
  have t: "trace ?w1 = trace w @ [Post (api_request env job_text resume_text)]"
    by (simp add: emit_def)
  show ?thesis
  proof (cases "requests_post env (api_request env job_text resume_text)")
    case (Inl e)
    with trace_except_clauses [of "(e, None)" ?w1] t show ?thesis
      by (auto simp: snd_analyze_cases)
  next
    case (Inr r)
    show ?thesis
    proof (cases "try_body env r")
      case (Inl er)
      with Inr trace_except_clauses [of er ?w1] t show ?thesis
        by (auto simp: snd_analyze_cases)
    next
      case v: (Inr v)
      with Inr t show ?thesis by (simp add: snd_analyze_cases)
    qed
  qed
qed

text \<open>
  C9 (missing credential), as the code has it. The script never tests the credential.
  When the variable is not set, \<^verbatim>\<open>DEEPSEEK_API_KEY\<close> is \<^verbatim>\<open>None\<close>, and the first
  effect of every call of \<^verbatim>\<open>analyze_with_deepseek\<close> is the request to the service,
  sent with the header \<^verbatim>\<open>Authorization: Bearer None\<close>.
\<close>

theorem missing_key_is_sent_as_None:
  "DEEPSEEK_API_KEY env = None \<Longrightarrow>
   \<exists>evs. trace (snd (analyze_with_deepseek env job_text resume_text w)) =
     trace w @
     Post \<lparr>req_url = ''https://api.deepseek.com/chat/completions'',
           req_headers =
             [(''Content-Type'', ''application/json''), (''Authorization'', ''Bearer None'')],
           req_json = data job_text resume_text\<rparr> # evs"
  using trace_analyze [of env job_text resume_text w]
  by (auto simp: api_request_def headers_def)

theorem missing_key_is_sent_as_None_witness:
  "DEEPSEEK_API_KEY demo_env_no_key = None \<and>
   (\<exists>evs. trace (snd (analyze_with_deepseek demo_env_no_key ''Intern, data team''
                         ''Python and SQL'' world0)) =
     trace world0 @
     Post \<lparr>req_url = ''https://api.deepseek.com/chat/completions'',
           req_headers =
             [(''Content-Type'', ''application/json''), (''Authorization'', ''Bearer None'')],
           req_json = data ''Intern, data team'' ''Python and SQL''\<rparr> # evs)"
  using missing_key_is_sent_as_None
          [of demo_env_no_key "''Intern, data team''" "''Python and SQL''" world0]
  by (simp add: demo_env_no_key_def demo_env_def)

text \<open>
  The statement of the specification fails: without the credential the whole run of the example goes
  through with no exception, the request is sent with \<^verbatim>\<open>Bearer None\<close>, and the posting
  is recorded.
\<close>

theorem missing_credential_counterexample:
  "DEEPSEEK_API_KEY demo_env_no_key = None \<and>
   main demo_env_no_key \<lparr>db = None, trace = []\<rparr> =
     (None,
      \<lparr>db = Some [(demo_url, 6)],
       trace =
         [Print (MsgScraping TARGET_URL), Print (MsgFound 1), Print (MsgProcessing demo_url),
          Post (api_request demo_env_no_key ''Intern, data team'' ''Python and SQL''),
          Print MsgAnalysisComplete, Print (MsgAnalysis demo_analysis), Commit demo_url,
          Print (MsgSaved demo_url)]\<rparr>) \<and>
   req_headers (api_request demo_env_no_key ''Intern, data team'' ''Python and SQL'') =
     [(''Content-Type'', ''application/json''), (''Authorization'', ''Bearer None'')]"
  by (simp add: main_def setup_database_def demo_env_no_key_def demo_env_def
      find_new_job_links_def emit_def resolve_href_def is_url_new_def list_of_set_def
      demo_url_def get_clean_text_from_url_def analyze_with_deepseek_def try_body_def
      raise_for_status_def response_json_def demo_loads_simps demo_result_content
      add_url_to_db_def demo_analysis_def api_request_def headers_def)

subsection \<open>Discovery failure\<close>

text \<open>
  C5 (page cannot be loaded), as the code has it. Nothing catches the exception the
  browser raises: it leaves \<^verbatim>\<open>find_new_job_links\<close> and ends the script right after the
  line announcing the scrape. No count of postings is printed, no posting is processed,
  and the store is as \<^verbatim>\<open>setup_database\<close> left it.
\<close>

theorem discovery_failure_ends_the_run:
  assumes "resume_txt env = Inr my_resume" and "page_hrefs env TARGET_URL = Inl e"
  shows "main env w = (Some e, emit (Print (MsgScraping TARGET_URL)) (setup_database w))"
  using assms by (simp add: main_def find_new_job_links_def Let_def)

theorem discovery_failure_ends_the_run_witness:
  "resume_txt demo_env_page_down = Inr ''Python and SQL'' \<and>
   page_hrefs demo_env_page_down TARGET_URL = Inl PlaywrightError \<and>
   main demo_env_page_down world0 =
     (Some PlaywrightError, emit (Print (MsgScraping TARGET_URL)) (setup_database world0))"
  using discovery_failure_ends_the_run
          [of demo_env_page_down "''Python and SQL''" PlaywrightError world0]
  by (simp add: demo_env_page_down_def demo_env_def)

text \<open>
  The statement of the specification fails: with the page down, the run ends with the browser's
  exception, unhandled.
\<close>

theorem discovery_failure_counterexample:
  "main demo_env_page_down \<lparr>db = None, trace = []\<rparr> =
     (Some PlaywrightError, \<lparr>db = Some [], trace = [Print (MsgScraping TARGET_URL)]\<rparr>)"
  by (simp add: main_def find_new_job_links_def demo_env_page_down_def demo_env_def
      setup_database_def emit_def)

subsection \<open>Order of report and persistence\<close>







subsection \<open>The Seen-Store\<close>

lemma is_url_new_Some:
  "db w = Some rows \<Longrightarrow> is_url_new url w = Inr (url \<notin> fst ` set rows)"
  by (auto simp: is_url_new_def filter_empty_conv)

lemma contains_iff: "db w = Some rows \<Longrightarrow> contains url w \<longleftrightarrow> url \<in> fst ` set rows"
  by (simp add: contains_def is_url_new_Some)

lemma contains_db:
  "contains url w \<longleftrightarrow> (\<exists>rows. db w = Some rows \<and> url \<in> fst ` set rows)"
  by (cases "db w") (auto simp: contains_def is_url_new_def filter_empty_conv)

lemma db_setup_database: "db w = Some rows \<Longrightarrow> db (setup_database w) = Some rows"
  by (simp add: setup_database_def)

lemma db_add_url_to_db:
  "db w = Some rows \<Longrightarrow> \<exists>rows'. db (snd (add_url_to_db env url w)) = Some (rows @ rows')"
  by (simp add: add_url_to_db_def emit_def)

subsection \<open>The Link Discoverer\<close>

lemma links_loop_Some:
  assumes "db w = Some rows"
  shows "links_loop env page_url links new_links w =
     (case discover env page_url links of
        Inl e \<Rightarrow> Inl e
      | Inr ds \<Rightarrow> Inr (new_links @ filter (\<lambda>h. \<not> contains h w) ds))"
  using assms
proof (induction links arbitrary: new_links)
  case Nil
  then show ?case by simp
next
  case (Cons a links)
  show ?case
  proof (cases "resolve_href env page_url a")
    case (Inl e)
    then show ?thesis by simp
  next
    case (Inr ho)
    show ?thesis
    proof (cases ho)
      case None
      with Inr Cons show ?thesis by simp
    next
      case (Some href)
      with Inr Cons show ?thesis
        by (cases "discover env page_url links") (simp_all add: is_url_new_Some contains_iff)
    qed
  qed
qed

lemma list_of_set_props: "distinct (list_of_set env xs)" "set (list_of_set env xs) = set xs"
  by (simp_all add: list_of_set_def)

lemma find_new_job_links_result:
  assumes "db w = Some rows" and "page_hrefs env page_url = Inr links"
    and "discover env page_url links = Inr ds"
  shows "find_new_job_links env page_url w =
     (Inr (list_of_set env (filter (\<lambda>h. \<not> contains h w) ds)),
      emit (Print (MsgScraping page_url)) w)"
proof -
  let ?w1 = "emit (Print (MsgScraping page_url)) w"
  have d: "db ?w1 = Some rows" using assms(1) by (simp add: emit_def)
  have c: "contains u ?w1 = contains u w" for u
    using d assms(1) by (simp add: contains_iff)
  show ?thesis
    using assms(2,3) by (simp add: find_new_job_links_def Let_def links_loop_Some [OF d] c)
qed

lemma find_new_job_links_raises:
  assumes "db w = Some rows" and "page_hrefs env page_url = Inr links"
    and "discover env page_url links = Inl e"
  shows "find_new_job_links env page_url w = (Inl e, emit (Print (MsgScraping page_url)) w)"
proof -
  let ?w1 = "emit (Print (MsgScraping page_url)) w"
  have d: "db ?w1 = Some rows" using assms(1) by (simp add: emit_def)
  show ?thesis
    using assms(2,3) by (simp add: find_new_job_links_def Let_def links_loop_Some [OF d])
qed

lemma snd_find_new_job_links:
  "snd (find_new_job_links env page_url w) = emit (Print (MsgScraping page_url)) w"
  by (simp add: find_new_job_links_def Let_def split: sum.splits)

lemma main_hands_over:
  assumes "resume_txt env = Inr my_resume"
    and "fst (find_new_job_links env TARGET_URL (setup_database w)) = Inr new_job_urls"
  shows "main env w =
     process_jobs env my_resume new_job_urls
       (emit (Print (MsgFound (length new_job_urls)))
          (emit (Print (MsgScraping TARGET_URL)) (setup_database w)))"
  using assms
  by (auto simp: main_def find_new_job_links_def Let_def split: sum.splits)

lemma resolve_href_relative:
  "h \<noteq> [] \<Longrightarrow> take 4 h \<noteq> ''http'' \<Longrightarrow> urljoin env page_url h = Inr joined \<Longrightarrow>
   resolve_href env page_url (Some h) = Inr (Some joined)"
  by (simp add: resolve_href_def)

lemma resolve_href_http:
  "take 4 h = ''http'' \<Longrightarrow> resolve_href env page_url (Some h) = Inr (Some h)"
  by (simp add: resolve_href_def)

text \<open>
  C8 (absolute resolution) at the relative reference \<^verbatim>\<open>httpdocs/jobs/7\<close>. Its first four
  characters are \<^verbatim>\<open>http\<close>, so the relative-link step leaves it as it is, whatever the
  page: discovery on \<^verbatim>\<open>https://x/careers\<close> returns it unresolved, where joining it
  against the page gives \<^verbatim>\<open>https://x/httpdocs/jobs/7\<close>.
\<close>

theorem relative_href_starting_with_http:
  "resolve_href env page_url (Some ''httpdocs/jobs/7'') = Inr (Some ''httpdocs/jobs/7'') \<and>
   fst (find_new_job_links demo_env_httpdocs ''https://x/careers'' world0) =
     Inr [''httpdocs/jobs/7''] \<and>
   urljoin demo_env_httpdocs ''https://x/careers'' ''httpdocs/jobs/7'' =
     Inr ''https://x/httpdocs/jobs/7''"
  by (simp add: find_new_job_links_def demo_env_httpdocs_def demo_env_def world0_def emit_def
     resolve_href_def demo_urljoin_def is_url_new_def list_of_set_def)

subsection \<open>Values and effects of one item\<close>

lemma fst_get_clean_text: "fst (get_clean_text_from_url env url w) = returned_text env url"
  by (simp add: returned_text_def get_clean_text_from_url_def split: sum.splits)

lemma fst_analyze: "fst (analyze_with_deepseek env jd r w) = returned_analysis env jd r"
  by (simp add: returned_analysis_def fst_analyze_cases except_clauses_def split: sum.splits prod.splits option.splits)

lemma db_get_clean_text: "db (snd (get_clean_text_from_url env url w)) = db w"
  by (simp add: get_clean_text_from_url_def emit_def split: sum.splits)

lemma trace_get_clean_text:
  "\<exists>evs. trace (snd (get_clean_text_from_url env url w)) = trace w @ evs \<and> no_processing evs"
proof (cases "trafilatura_fetch_url env url")
  case (Inl e)
  then have "trace (snd (get_clean_text_from_url env url w)) =
      trace w @ [Print (MsgExtractError url e)]"
    by (simp add: get_clean_text_from_url_def emit_def)
  moreover have "no_processing [Print (MsgExtractError url e)]"
    by (simp add: no_processing_def)
  ultimately show ?thesis by blast
next
  case (Inr d)
  show ?thesis
  proof (cases "trafilatura_extract env d")
    case (Inl e)
    with Inr have "trace (snd (get_clean_text_from_url env url w)) =
        trace w @ [Print (MsgExtractError url e)]"
      by (simp add: get_clean_text_from_url_def emit_def)
    moreover have "no_processing [Print (MsgExtractError url e)]"
      by (simp add: no_processing_def)
    ultimately show ?thesis by blast
  next
    case t: (Inr t)
    with Inr have "trace (snd (get_clean_text_from_url env url w)) = trace w @ []"
      by (simp add: get_clean_text_from_url_def)
    moreover have "no_processing []" by (simp add: no_processing_def)
    ultimately show ?thesis by blast
  qed
qed

lemma trace_analyze_no_processing:
  "\<exists>evs. trace (snd (analyze_with_deepseek env jd r w)) = trace w @ evs \<and> no_processing evs"
proof -
  obtain evs where t: "trace (snd (analyze_with_deepseek env jd r w)) =
      trace w @ Post (api_request env jd r) # evs"
    and p: "\<forall>e\<in>set evs. \<exists>m. e = Print m \<and> (\<forall>u. m \<noteq> MsgProcessing u)"
    using trace_analyze by blast
  have "no_processing (Post (api_request env jd r) # evs)"
    using p by (auto simp: no_processing_def)
  with t show ?thesis by blast
qed

lemma no_processing_append:
  "no_processing (xs @ ys) \<longleftrightarrow> no_processing xs \<and> no_processing ys"
  by (auto simp: no_processing_def)

subsection \<open>The loop of the script\<close>

text \<open>One pass of the loop body.\<close>

lemma process_jobs_step:
  assumes "db w = Some rows" and "url \<notin> fst ` set rows"
  shows "\<exists>w' evs.
     trace w' = trace w @ Print (MsgProcessing url) # evs \<and> no_processing evs \<and>
     (if both_truthy env my_resume url
      then (\<exists>t. db w' = Some (rows @ [(url, t)])) \<and>
           process_jobs env my_resume (url # urls) w = process_jobs env my_resume urls w'
      else db w' = Some rows \<and>
           (process_jobs env my_resume (url # urls) w = process_jobs env my_resume urls w' \<or>
            (\<exists>e. process_jobs env my_resume (url # urls) w = (Some e, w'))))"
proof -
  let ?w0 = "emit (Print (MsgProcessing url)) w"
  obtain jdo w1 where g: "get_clean_text_from_url env url ?w0 = (jdo, w1)"
    by (cases "get_clean_text_from_url env url ?w0")
  have jdo: "jdo = returned_text env url"
    using fst_get_clean_text [of env url ?w0] g by simp
  have d1: "db w1 = Some rows"
    using db_get_clean_text [of env url ?w0] g assms(1) by (simp add: emit_def)
  obtain evs1 where t1: "trace w1 = trace w @ Print (MsgProcessing url) # evs1"
    and n1: "no_processing evs1"
    using trace_get_clean_text [of env url ?w0] g by (auto simp: emit_def)
  show ?thesis
  proof (cases "\<exists>jd. jdo = Some jd \<and> jd \<noteq> []")
    case False
    then have nb: "\<not> both_truthy env my_resume url"
      using jdo by (auto simp: both_truthy_def split: option.splits)
    have "process_jobs env my_resume (url # urls) w = process_jobs env my_resume urls w1"
      using g False by (cases jdo) auto
    with nb d1 t1 n1 show ?thesis by auto
  next
    case True
    then obtain jd where jd: "jdo = Some jd" "jd \<noteq> []" by blast
    have rt: "returned_text env url = Some jd" using jdo jd by simp
    obtain ar w2 where a: "analyze_with_deepseek env jd my_resume w1 = (ar, w2)"
      by (cases "analyze_with_deepseek env jd my_resume w1")
    have ar: "returned_analysis env jd my_resume = ar"
      using fst_analyze [of env jd my_resume w1] a by simp
    have d2: "db w2 = Some rows"
      using db_analyze [of env jd my_resume w1] a d1 by simp
    obtain evs2 where t2: "trace w2 = trace w1 @ evs2" and n2: "no_processing evs2"
      using trace_analyze_no_processing [of env jd my_resume w1] a by auto
    have t2': "trace w2 = trace w @ Print (MsgProcessing url) # (evs1 @ evs2)"
      using t1 t2 by simp
    have n12: "no_processing (evs1 @ evs2)"
      using n1 n2 by (simp add: no_processing_append)
    show ?thesis
    proof (cases ar)
      case (Inl e)
      then have nb: "\<not> both_truthy env my_resume url"
        using rt jd ar by (simp add: both_truthy_def)
      have "process_jobs env my_resume (url # urls) w = (Some e, w2)"
        using g jd a Inl by simp
      with nb d2 t2' n12 show ?thesis by auto
    next
      case (Inr analysis)
      show ?thesis
      proof (cases "truthy analysis")
        case False
        then have nb: "\<not> both_truthy env my_resume url"
          using rt jd ar Inr by (simp add: both_truthy_def)
        have "process_jobs env my_resume (url # urls) w = process_jobs env my_resume urls w2"
          using g jd a Inr False by simp
        with nb d2 t2' n12 show ?thesis by auto
      next
        case True
        then have b: "both_truthy env my_resume url"
          using rt jd ar Inr by (simp add: both_truthy_def)
        let ?evs3 = "[Print MsgAnalysisComplete, Print (MsgAnalysis analysis), Commit url,
              Print (MsgSaved url)]"
        let ?w3 = "w2\<lparr>db := Some (rows @ [(url, current_timestamp env (length (trace w2) + 2))]),
           trace := trace w2 @ ?evs3\<rparr>"
        have p: "process_jobs env my_resume (url # urls) w = process_jobs env my_resume urls ?w3"
          using g jd a Inr True d2 assms(2) by (simp add: add_url_to_db_def emit_def)
        have t3: "trace ?w3 = trace w @ Print (MsgProcessing url) # (evs1 @ evs2 @ ?evs3)"
          using t2' by simp
        have n3: "no_processing (evs1 @ evs2 @ ?evs3)"
          using n1 n2 by (simp add: no_processing_append) (simp add: no_processing_def)
        have d3: "\<exists>t. db ?w3 = Some (rows @ [(url, t)])" by simp
        from b p t3 n3 d3 show ?thesis by (intro exI [of _ ?w3] exI [of _ "evs1 @ evs2 @ ?evs3"]) simp
      qed
    qed
  qed
qed

lemma processed_simps:
  "processed [] = {}"
  "processed (Print (MsgProcessing u) # evs) = insert u (processed evs)"
  "processed (xs @ ys) = processed xs \<union> processed ys"
  "no_processing xs \<Longrightarrow> processed xs = {}"
  by (auto simp: processed_def no_processing_def)

lemma process_jobs_invariant:
  assumes "db w = Some rows" and "distinct urls" and "set urls \<inter> fst ` set rows = {}"
  shows "\<exists>rows' evs.
     db (snd (process_jobs env my_resume urls w)) = Some (rows @ rows') \<and>
     trace (snd (process_jobs env my_resume urls w)) = trace w @ evs \<and>
     fst ` set rows' = {u \<in> processed evs. both_truthy env my_resume u} \<and>
     processed evs \<subseteq> set urls \<and>
     (fst (process_jobs env my_resume urls w) = None \<longrightarrow> processed evs = set urls)"
  using assms
proof (induction urls arbitrary: w rows)
  case Nil
  have "db (snd (process_jobs env my_resume [] w)) = Some (rows @ []) \<and>
     trace (snd (process_jobs env my_resume [] w)) = trace w @ [] \<and>
     fst ` set ([] :: (string \<times> nat) list) = {u \<in> processed []. both_truthy env my_resume u} \<and>
     processed [] \<subseteq> set ([] :: string list) \<and>
     (fst (process_jobs env my_resume [] w) = None \<longrightarrow> processed [] = set ([] :: string list))"
    using Nil by (simp add: processed_simps)
  then show ?case
    by - (rule exI [of _ "[]"], rule exI [of _ "[]"])
next
  case (Cons url urls)
  have new: "url \<notin> fst ` set rows" using Cons.prems(3) by auto
  have dis: "distinct urls" "url \<notin> set urls" using Cons.prems(2) by auto
  have rest: "set urls \<inter> fst ` set rows = {}" using Cons.prems(3) by auto
  obtain w' evs0 where t: "trace w' = trace w @ Print (MsgProcessing url) # evs0"
    and n: "no_processing evs0"
    and c: "if both_truthy env my_resume url
      then (\<exists>t. db w' = Some (rows @ [(url, t)])) \<and>
           process_jobs env my_resume (url # urls) w = process_jobs env my_resume urls w'
      else db w' = Some rows \<and>
           (process_jobs env my_resume (url # urls) w = process_jobs env my_resume urls w' \<or>
            (\<exists>e. process_jobs env my_resume (url # urls) w = (Some e, w')))"
    using process_jobs_step [OF Cons.prems(1) new, of env my_resume urls]
    by (elim exE conjE) (rule that)
  have p0: "processed (Print (MsgProcessing url) # evs0) = {url}"
    using n by (simp add: processed_simps)
  show ?case
  proof (cases "both_truthy env my_resume url")
    case True
    with c obtain ts where d: "db w' = Some (rows @ [(url, ts)])"
      and p: "process_jobs env my_resume (url # urls) w = process_jobs env my_resume urls w'"
      by auto
    have "set urls \<inter> fst ` set (rows @ [(url, ts)]) = {}"
      using rest dis by auto
    from Cons.IH [OF d dis(1) this]
    obtain rows' evs where
      i1: "db (snd (process_jobs env my_resume urls w')) = Some ((rows @ [(url, ts)]) @ rows')"
      and i2: "trace (snd (process_jobs env my_resume urls w')) = trace w' @ evs"
      and i3: "fst ` set rows' = {u \<in> processed evs. both_truthy env my_resume u}"
      and i4: "processed evs \<subseteq> set urls"
      and i5: "fst (process_jobs env my_resume urls w') = None \<longrightarrow> processed evs = set urls"
      by (elim exE conjE) (rule that)
    let ?rows = "(url, ts) # rows'"
    let ?evs = "Print (MsgProcessing url) # evs0 @ evs"
    have pe: "processed ?evs = insert url (processed evs)"
      using n by (simp add: processed_simps)
    have "db (snd (process_jobs env my_resume (url # urls) w)) = Some (rows @ ?rows)"
      using p i1 by simp
    moreover have "trace (snd (process_jobs env my_resume (url # urls) w)) = trace w @ ?evs"
      using p i2 t by simp
    moreover have "fst ` set ?rows = {u \<in> processed ?evs. both_truthy env my_resume u}"
      using i3 True unfolding pe by auto
    moreover have "processed ?evs \<subseteq> set (url # urls)"
      using i4 unfolding pe by auto
    moreover have "fst (process_jobs env my_resume (url # urls) w) = None \<longrightarrow>
        processed ?evs = set (url # urls)"
      using i5 p unfolding pe by auto
    ultimately show ?thesis
      by - (rule exI [of _ ?rows], rule exI [of _ ?evs], intro conjI, assumption+)
  next
    case False
    with c have d: "db w' = Some rows"
      and p: "process_jobs env my_resume (url # urls) w = process_jobs env my_resume urls w' \<or>
            (\<exists>e. process_jobs env my_resume (url # urls) w = (Some e, w'))"
      by auto
    from p show ?thesis
    proof
      assume p: "process_jobs env my_resume (url # urls) w = process_jobs env my_resume urls w'"
      from Cons.IH [OF d dis(1) rest]
      obtain rows' evs where
        i1: "db (snd (process_jobs env my_resume urls w')) = Some (rows @ rows')"
        and i2: "trace (snd (process_jobs env my_resume urls w')) = trace w' @ evs"
        and i3: "fst ` set rows' = {u \<in> processed evs. both_truthy env my_resume u}"
        and i4: "processed evs \<subseteq> set urls"
        and i5: "fst (process_jobs env my_resume urls w') = None \<longrightarrow> processed evs = set urls"
        by (elim exE conjE) (rule that)
      let ?evs = "Print (MsgProcessing url) # evs0 @ evs"
      have pe: "processed ?evs = insert url (processed evs)"
        using n by (simp add: processed_simps)
      have "db (snd (process_jobs env my_resume (url # urls) w)) = Some (rows @ rows')"
        using p i1 by simp
      moreover have "trace (snd (process_jobs env my_resume (url # urls) w)) = trace w @ ?evs"
        using p i2 t by simp
      moreover have "fst ` set rows' = {u \<in> processed ?evs. both_truthy env my_resume u}"
        using i3 False unfolding pe by auto
      moreover have "processed ?evs \<subseteq> set (url # urls)"
        using i4 unfolding pe by auto
      moreover have "fst (process_jobs env my_resume (url # urls) w) = None \<longrightarrow>
          processed ?evs = set (url # urls)"
        using i5 p unfolding pe by auto
      ultimately show ?thesis
      by - (rule exI [of _ rows'], rule exI [of _ ?evs], intro conjI, assumption+)
    next
      assume "\<exists>e. process_jobs env my_resume (url # urls) w = (Some e, w')"
      then obtain e where p: "process_jobs env my_resume (url # urls) w = (Some e, w')" ..
      let ?evs = "Print (MsgProcessing url) # evs0"
      have "db (snd (process_jobs env my_resume (url # urls) w)) = Some (rows @ [])"
        using p d by simp
      moreover have "trace (snd (process_jobs env my_resume (url # urls) w)) = trace w @ ?evs"
        using p t by simp
      moreover have "fst ` set ([] :: (string \<times> nat) list) =
          {u \<in> processed ?evs. both_truthy env my_resume u}"
        using False unfolding p0 by auto
      moreover have "processed ?evs \<subseteq> set (url # urls)"
        unfolding p0 by simp
      moreover have "fst (process_jobs env my_resume (url # urls) w) = None \<longrightarrow>
          processed ?evs = set (url # urls)"
        using p by simp
      ultimately show ?thesis
      by - (rule exI [of _ "[]"], rule exI [of _ ?evs], intro conjI, assumption+)
    qed
  qed
qed


lemma db_process_jobs:
  "db w = Some rows \<Longrightarrow> \<exists>rows'. db (snd (process_jobs env r urls w)) = Some (rows @ rows')"
proof (induction urls arbitrary: w rows)
  case Nil
  then show ?case by simp
next
  case (Cons url urls)
  let ?w0 = "emit (Print (MsgProcessing url)) w"
  obtain jdo w1 where g: "get_clean_text_from_url env url ?w0 = (jdo, w1)"
    by (cases "get_clean_text_from_url env url ?w0")
  have d1: "db w1 = Some rows"
    using db_get_clean_text [of env url ?w0] g Cons.prems by (simp add: emit_def)
  show ?case
  proof (cases "\<exists>jd. jdo = Some jd \<and> jd \<noteq> []")
    case False
    then have "process_jobs env r (url # urls) w = process_jobs env r urls w1"
      using g by (cases jdo) auto
    with Cons.IH [OF d1] show ?thesis by simp
  next
    case True
    then obtain jd where jd: "jdo = Some jd" "jd \<noteq> []" by blast
    obtain ar w2 where a: "analyze_with_deepseek env jd r w1 = (ar, w2)"
      by (cases "analyze_with_deepseek env jd r w1")
    have d2: "db w2 = Some rows"
      using db_analyze [of env jd r w1] a d1 by simp
    show ?thesis
    proof (cases ar)
      case (Inl e)
      then have "process_jobs env r (url # urls) w = (Some e, w2)"
        using g jd a by simp
      with d2 show ?thesis by simp
    next
      case (Inr analysis)
      show ?thesis
      proof (cases "truthy analysis")
        case False
        then have "process_jobs env r (url # urls) w = process_jobs env r urls w2"
          using g jd a Inr by simp
        with Cons.IH [OF d2] show ?thesis by simp
      next
        case True
        let ?w2' = "emit (Print (MsgAnalysis analysis)) (emit (Print MsgAnalysisComplete) w2)"
        have d2': "db ?w2' = Some rows" using d2 by (simp add: emit_def)
        show ?thesis
        proof (cases "url \<in> fst ` set rows")
          case in_store: True
          then have "process_jobs env r (url # urls) w = (Some IntegrityError, ?w2')"
            using g jd a Inr True d2' by (simp add: add_url_to_db_def)
          with d2' show ?thesis by simp
        next
          case new: False
          let ?rows1 = "rows @ [(url, current_timestamp env (length (trace ?w2')))]"
          let ?w3 = "emit (Print (MsgSaved url)) (emit (Commit url) (?w2'\<lparr>db := Some ?rows1\<rparr>))"
          have p: "process_jobs env r (url # urls) w = process_jobs env r urls ?w3"
            using g jd a Inr True d2' new by (simp add: add_url_to_db_def)
          have d3: "db ?w3 = Some ?rows1" by (simp add: emit_def)
          from Cons.IH [OF d3] obtain rows' where
            "db (snd (process_jobs env r urls ?w3)) = Some (?rows1 @ rows')" ..
          with p show ?thesis by simp
        qed
      qed
    qed
  qed
qed

lemma contains_setup_database: "contains url w \<Longrightarrow> contains url (setup_database w)"
  by (auto simp: contains_db setup_database_def)

lemma contains_add_url_to_db: "contains url w \<Longrightarrow> contains url (snd (add_url_to_db env url' w))"
proof -
  assume "contains url w"
  then obtain rows where r: "db w = Some rows" "url \<in> fst ` set rows"
    by (auto simp: contains_db)
  from db_add_url_to_db [OF r(1), of env url'] obtain rows' where
    "db (snd (add_url_to_db env url' w)) = Some (rows @ rows')" ..
  with r(2) show ?thesis by (auto simp: contains_db)
qed

lemma contains_process_jobs:
  "contains url w \<Longrightarrow> contains url (snd (process_jobs env r urls w))"
proof -
  assume "contains url w"
  then obtain rows where r: "db w = Some rows" "url \<in> fst ` set rows"
    by (auto simp: contains_db)
  from db_process_jobs [OF r(1), of env r urls] obtain rows' where
    "db (snd (process_jobs env r urls w)) = Some (rows @ rows')" ..
  with r(2) show ?thesis by (auto simp: contains_db)
qed

lemma contains_emit: "contains url (emit e w) = contains url w"
  by (simp add: contains_def is_url_new_def emit_def)

lemma contains_main: "contains url w \<Longrightarrow> contains url (snd (main env w))"
proof -
  assume c: "contains url w"
  let ?w1 = "setup_database w"
  have c1: "contains url ?w1" using c by (rule contains_setup_database)
  show ?thesis
  proof (cases "resume_txt env")
    case (Inl e)
    with c1 show ?thesis by (simp add: main_def Let_def)
  next
    case (Inr my_resume)
    obtain x w2 where f: "find_new_job_links env TARGET_URL ?w1 = (x, w2)"
      by (cases "find_new_job_links env TARGET_URL ?w1")
    have w2: "w2 = emit (Print (MsgScraping TARGET_URL)) ?w1"
      using snd_find_new_job_links [of env TARGET_URL ?w1] f by simp
    have c2: "contains url w2" using c1 w2 by (simp add: contains_emit)
    show ?thesis
    proof (cases x)
      case e: (Inl e)
      with Inr f c2 show ?thesis by (simp add: main_def Let_def)
    next
      case u: (Inr new_job_urls)
      have "contains url (emit (Print (MsgFound (length new_job_urls))) w2)"
        using c2 by (simp add: contains_emit)
      then have "contains url (snd (process_jobs env my_resume new_job_urls
            (emit (Print (MsgFound (length new_job_urls))) w2)))"
        by (rule contains_process_jobs)
      with Inr f u show ?thesis by (simp add: main_def Let_def)
    qed
  qed
qed

lemma contains_store_op: "contains url w \<Longrightarrow> contains url (store_op_apply op w)"
  by (cases op)
    (simp_all add: contains_setup_database contains_add_url_to_db contains_process_jobs
      contains_main)

lemma contains_thereafter: "contains url w \<Longrightarrow> contains url (thereafter ops w)"
  unfolding thereafter_def
  by (induction ops arbitrary: w) (simp_all add: contains_store_op)

subsection \<open>Failures of one item\<close>





lemma abort_when_already_recorded:
  assumes "returned_text env url = Some jd" and "jd \<noteq> []"
    and "returned_analysis env jd r = Inr a" and "truthy a" and "contains url w"
  shows "fst (process_jobs env r (url # urls) w) = Some IntegrityError"
proof -
  let ?w0 = "emit (Print (MsgProcessing url)) w"
  obtain rows where rows: "db w = Some rows" "url \<in> fst ` set rows"
    using assms(5) by (cases "db w") (auto simp: contains_def is_url_new_def filter_empty_conv)
  obtain jdo w1 where g: "get_clean_text_from_url env url ?w0 = (jdo, w1)"
    by (cases "get_clean_text_from_url env url ?w0")
  have jdo: "jdo = Some jd"
    using fst_get_clean_text [of env url ?w0] g assms(1) by simp
  have d1: "db w1 = db w"
    using db_get_clean_text [of env url ?w0] g by (simp add: emit_def)
  obtain ar w2 where an: "analyze_with_deepseek env jd r w1 = (ar, w2)"
    by (cases "analyze_with_deepseek env jd r w1")
  have ar: "ar = Inr a"
    using fst_analyze [of env jd r w1] an assms(3) by simp
  have d2: "db w2 = Some rows"
    using db_analyze [of env jd r w1] an d1 rows(1) by simp
  show ?thesis
    using g jdo assms(2) an ar assms(4) d2 rows(2)
    by (simp add: add_url_to_db_def emit_def)
qed


lemma demo_returned_text:
  "returned_text demo_env demo_url = Some ''Intern, data team''"
  "returned_text demo_env_503 demo_url = Some ''Intern, data team''"
  "returned_text demo_env_two demo_url = Some ''Intern, data team''"
  "returned_text demo_env_two demo_url2 = None"
  by (simp_all add: returned_text_def get_clean_text_from_url_def demo_env_def demo_env_503_def
      demo_env_two_def demo_url_def demo_url2_def)

lemma demo_returned_analysis:
  "returned_analysis demo_env ''Intern, data team'' ''Python and SQL'' = Inr demo_analysis"
  "returned_analysis demo_env_two ''Intern, data team'' ''Python and SQL'' = Inr demo_analysis"
  by (simp_all add: returned_analysis_def fst_analyze_cases try_body_def raise_for_status_def
      response_json_def demo_env_def demo_env_two_def demo_loads_simps demo_result_content)



lemma demo_loads_more:
  \<open>demo_loads ''{"choices": []}'' = Inr (JObject [(''choices'', JArray [])])\<close>
  \<open>demo_loads ''{"choices": [{"message": {"content": "{}"}}]}'' =
     Inr (JObject [(''choices'',
            JArray [JObject [(''message'', JObject [(''content'', JString ''{}'')])]])])\<close>
  \<open>demo_loads ''{}'' = Inr (JObject [])\<close>
  by (simp_all add: demo_loads_def demo_body_def demo_content_def)




subsection \<open>Recording an identifier\<close>

text \<open>
  C7 (recording twice), as the code has it. On a store that does not hold \<open>url\<close>, the
  first \<^verbatim>\<open>add_url_to_db\<close> succeeds; a second one raises \<^verbatim>\<open>sqlite3.IntegrityError\<close>
  and changes nothing, so the store holds exactly one record for \<open>url\<close>. From the first
  call on \<open>contains\<close> holds, and it holds after every sequence of further operations
  on the store. The exception of a repeated insertion is caught nowhere: whenever the loop
  comes to insert \<open>url\<close> again, the run ends with it.
\<close>

theorem record_twice_one_record:
  assumes "db w = Some rows" and "url \<notin> fst ` set rows"
  shows "\<exists>w1 rows1.
     add_url_to_db env url w = (Inr (), w1) \<and>
     add_url_to_db env url w1 = (Inl IntegrityError, w1) \<and>
     db w1 = Some rows1 \<and> length (filter (\<lambda>row. fst row = url) rows1) = 1 \<and>
     contains url w1 \<and>
     (\<forall>ops. contains url (thereafter ops w1)) \<and>
     (\<forall>ops env' r jd a urls.
        returned_text env' url = Some jd \<and> jd \<noteq> [] \<and>
        returned_analysis env' jd r = Inr a \<and> truthy a \<longrightarrow>
        fst (process_jobs env' r (url # urls) (thereafter ops w1)) = Some IntegrityError)"
proof -
  let ?rows1 = "rows @ [(url, current_timestamp env (length (trace w)))]"
  let ?w1 = "emit (Commit url) (w\<lparr>db := Some ?rows1\<rparr>)"
  have f: "filter (\<lambda>row. fst row = url) rows = []"
    using assms(2) by (auto simp: filter_empty_conv)
  have 1: "add_url_to_db env url w = (Inr (), ?w1)"
    using assms by (simp add: add_url_to_db_def)
  have d: "db ?w1 = Some ?rows1" by (simp add: emit_def)
  have 2: "add_url_to_db env url ?w1 = (Inl IntegrityError, ?w1)"
    using d by (simp add: add_url_to_db_def)
  have 3: "length (filter (\<lambda>row. fst row = url) ?rows1) = 1"
    using f by simp
  have 4: "contains url ?w1" using d by (simp add: contains_iff)
  have 5: "\<forall>ops. contains url (thereafter ops ?w1)"
    using 4 by (simp add: contains_thereafter)
  have 6: "\<forall>ops env' r jd a urls.
        returned_text env' url = Some jd \<and> jd \<noteq> [] \<and>
        returned_analysis env' jd r = Inr a \<and> truthy a \<longrightarrow>
        fst (process_jobs env' r (url # urls) (thereafter ops ?w1)) = Some IntegrityError"
    using 5 abort_when_already_recorded by blast
  from 1 2 d 3 4 5 6 show ?thesis
    by - (rule exI [of _ ?w1], rule exI [of _ ?rows1], intro conjI, assumption+)
qed

lemma demo_first_add:
  "add_url_to_db demo_env demo_url world0 =
     (Inr (), \<lparr>db = Some [(demo_url, 0)], trace = [Commit demo_url]\<rparr>)"
  by (simp add: world0_def add_url_to_db_def emit_def demo_env_def)

theorem record_twice_one_record_witness:
  "db world0 = Some [] \<and> demo_url \<notin> fst ` set [] \<and>
   add_url_to_db demo_env demo_url world0 =
     (Inr (), \<lparr>db = Some [(demo_url, 0)], trace = [Commit demo_url]\<rparr>) \<and>
   add_url_to_db demo_env demo_url \<lparr>db = Some [(demo_url, 0)], trace = [Commit demo_url]\<rparr> =
     (Inl IntegrityError, \<lparr>db = Some [(demo_url, 0)], trace = [Commit demo_url]\<rparr>) \<and>
   contains demo_url
     (thereafter [Add demo_env demo_url2, Setup, Run demo_env_two, Add demo_env demo_url]
        \<lparr>db = Some [(demo_url, 0)], trace = [Commit demo_url]\<rparr>) \<and>
   fst (process_jobs demo_env ''Python and SQL'' [demo_url, demo_url2]
          (thereafter [Run demo_env_two] \<lparr>db = Some [(demo_url, 0)], trace = [Commit demo_url]\<rparr>)) =
     Some IntegrityError"
proof -
  let ?w1 = "\<lparr>db = Some [(demo_url, 0)], trace = [Commit demo_url]\<rparr>"
  have h1: "db world0 = Some []" by (simp add: world0_def)
  have h2: "demo_url \<notin> fst ` set ([] :: (string \<times> nat) list)" by simp
  obtain w1 where
    a: "add_url_to_db demo_env demo_url world0 = (Inr (), w1)"
    and b: "add_url_to_db demo_env demo_url w1 = (Inl IntegrityError, w1)"
    and c: "\<forall>ops. contains demo_url (thereafter ops w1)"
    and e: "\<forall>ops env' r jd a urls.
        returned_text env' demo_url = Some jd \<and> jd \<noteq> [] \<and>
        returned_analysis env' jd r = Inr a \<and> truthy a \<longrightarrow>
        fst (process_jobs env' r (demo_url # urls) (thereafter ops w1)) = Some IntegrityError"
    using record_twice_one_record [OF h1 h2, of demo_env]
    by (elim exE conjE) (rule that)
  have w1: "w1 = ?w1" using a by (simp only: demo_first_add prod.inject)
  have t: "truthy demo_analysis" by (simp add: demo_analysis_def)
  have "fst (process_jobs demo_env ''Python and SQL'' (demo_url # [demo_url2])
          (thereafter [Run demo_env_two] w1)) = Some IntegrityError"
    using e demo_returned_text(1) demo_returned_analysis(1) t by blast
  with h1 h2 a b c show ?thesis unfolding w1 by simp
qed

text \<open>
  The statement of the specification fails where it has the program tolerate the second
  call: when the loop reaches a posting that is already recorded (another run recorded it
  after this run's discovery), the exception of the insertion ends the run.
\<close>

theorem duplicate_not_tolerated_counterexample:
  "process_jobs demo_env ''Python and SQL'' [demo_url]
      \<lparr>db = Some [(demo_url, 0)], trace = []\<rparr> =
     (Some IntegrityError,
      \<lparr>db = Some [(demo_url, 0)],
       trace = [Print (MsgProcessing demo_url),
                Post (api_request demo_env ''Intern, data team'' ''Python and SQL''),
                Print MsgAnalysisComplete, Print (MsgAnalysis demo_analysis)]\<rparr>)"
  by (simp add: get_clean_text_from_url_def demo_env_def emit_def
      analyze_with_deepseek_def try_body_def raise_for_status_def response_json_def
      demo_loads_simps demo_result_content add_url_to_db_def demo_analysis_def)

subsection \<open>The identifiers a run processes\<close>

lemma processed_Cons:
  "processed (e # evs) =
     (case e of
        Print m \<Rightarrow> (case m of MsgProcessing u \<Rightarrow> insert u (processed evs) | _ \<Rightarrow> processed evs)
      | _ \<Rightarrow> processed evs)"
  by (auto simp: processed_def split: event.splits message.splits)

lemma db_setup_database_Some: "\<exists>rows. db (setup_database w) = Some rows"
  by (cases "db w") (simp_all add: setup_database_def)

lemma trace_setup_database: "trace (setup_database w) = trace w"
  by (cases "db w") (simp_all add: setup_database_def)

text \<open>
  C3 (novelty filter), as the code has it. When the listing page loads and every link on
  it resolves, \<^verbatim>\<open>find_new_job_links\<close> returns, without repetition, exactly the discovered
  identifiers for which \<open>contains\<close> does not hold at the start of the run. The run
  processes identifiers of that set only, and all of them when no exception ends it.
\<close>

theorem run_processes_filtered:
  assumes "resume_txt env = Inr my_resume"
    and "page_hrefs env TARGET_URL = Inr links"
    and "discover env TARGET_URL links = Inr ds"
  shows "\<exists>new evs.
     fst (find_new_job_links env TARGET_URL (setup_database w)) = Inr new \<and>
     distinct new \<and>
     set new = set ds - {u. contains u (setup_database w)} \<and>
     trace (snd (main env w)) = trace w @ evs \<and>
     processed evs \<subseteq> set new \<and>
     (fst (main env w) = None \<longrightarrow> processed evs = set new)"
proof -
  let ?w1 = "setup_database w"
  let ?new = "list_of_set env (filter (\<lambda>h. \<not> contains h ?w1) ds)"
  let ?w2 = "emit (Print (MsgFound (length ?new))) (emit (Print (MsgScraping TARGET_URL)) ?w1)"
  obtain rows where d1: "db ?w1 = Some rows" using db_setup_database_Some by blast
  have f: "find_new_job_links env TARGET_URL ?w1 =
      (Inr ?new, emit (Print (MsgScraping TARGET_URL)) ?w1)"
    using find_new_job_links_result [OF d1 assms(2,3)] .
  then have f1: "fst (find_new_job_links env TARGET_URL ?w1) = Inr ?new" by simp
  have m: "main env w = process_jobs env my_resume ?new ?w2"
    using main_hands_over [OF assms(1) f1] .
  have d2: "db ?w2 = Some rows" using d1 by (simp add: emit_def)
  have t2: "trace ?w2 =
      trace w @ [Print (MsgScraping TARGET_URL), Print (MsgFound (length ?new))]"
    by (simp add: emit_def trace_setup_database)
  have dis: "distinct ?new" by (simp add: list_of_set_props)
  have sn: "set ?new = set ds - {u. contains u ?w1}"
    by (auto simp: list_of_set_props)
  have new: "set ?new \<inter> fst ` set rows = {}"
    unfolding sn using contains_iff [OF d1] by auto
  obtain rows' evs' where
    t: "trace (snd (process_jobs env my_resume ?new ?w2)) = trace ?w2 @ evs'"
    and p: "processed evs' \<subseteq> set ?new"
    and e: "fst (process_jobs env my_resume ?new ?w2) = None \<longrightarrow> processed evs' = set ?new"
    using process_jobs_invariant [OF d2 dis new, of env my_resume]
    by (elim exE conjE) (rule that)
  let ?evs = "[Print (MsgScraping TARGET_URL), Print (MsgFound (length ?new))] @ evs'"
  have pe: "processed ?evs = processed evs'"
    by (simp add: processed_Cons)
  have c4: "trace (snd (main env w)) = trace w @ ?evs"
    using t t2 m by simp
  have c5: "processed ?evs \<subseteq> set ?new" using p pe by simp
  have c6: "fst (main env w) = None \<longrightarrow> processed ?evs = set ?new"
    using e m pe by simp
  from f1 dis sn c4 c5 c6 show ?thesis
    by - (rule exI [of _ ?new], rule exI [of _ ?evs], intro conjI, assumption+)
qed

lemma seen_1_run:
  "main demo_env_seen_1 world_seen_1 =
     (None,
      \<lparr>db = Some [(''https://x/jobs/1'', 0), (''https://x/jobs/2'', 6)],
       trace =
         [Print (MsgScraping TARGET_URL), Print (MsgFound 1),
          Print (MsgProcessing ''https://x/jobs/2''),
          Post (api_request demo_env_seen_1 ''Intern, data team'' ''Python and SQL''),
          Print MsgAnalysisComplete, Print (MsgAnalysis demo_analysis),
          Commit ''https://x/jobs/2'', Print (MsgSaved ''https://x/jobs/2'')]\<rparr>)"
  by (simp add: main_def setup_database_def demo_env_seen_1_def demo_env_def world_seen_1_def
      find_new_job_links_def emit_def resolve_href_def is_url_new_def list_of_set_def
      get_clean_text_from_url_def analyze_with_deepseek_def try_body_def
      raise_for_status_def response_json_def demo_loads_simps demo_result_content
      add_url_to_db_def demo_analysis_def)

lemma seen_1_discover:
  "discover demo_env_seen_1 TARGET_URL [Some ''https://x/jobs/1'', Some ''https://x/jobs/2''] =
     Inr [''https://x/jobs/1'', ''https://x/jobs/2'']"
  by (simp add: resolve_href_def)

lemma seen_1_filtered:
  "fst (find_new_job_links demo_env_seen_1 TARGET_URL (setup_database world_seen_1)) =
     Inr [''https://x/jobs/2'']"
  by (simp add: setup_database_def demo_env_seen_1_def demo_env_def world_seen_1_def
      find_new_job_links_def emit_def resolve_href_def is_url_new_def list_of_set_def)

text \<open>
  The scenario of the specification: the store holds \<^verbatim>\<open>https://x/jobs/1\<close>, discovery
  gives \<^verbatim>\<open>https://x/jobs/1\<close> and \<^verbatim>\<open>https://x/jobs/2\<close>, and the run processes
  \<^verbatim>\<open>https://x/jobs/2\<close> alone.
\<close>

theorem run_processes_filtered_witness:
  "resume_txt demo_env_seen_1 = Inr ''Python and SQL'' \<and>
   page_hrefs demo_env_seen_1 TARGET_URL =
     Inr [Some ''https://x/jobs/1'', Some ''https://x/jobs/2''] \<and>
   discover demo_env_seen_1 TARGET_URL [Some ''https://x/jobs/1'', Some ''https://x/jobs/2''] =
     Inr [''https://x/jobs/1'', ''https://x/jobs/2''] \<and>
   contains ''https://x/jobs/1'' (setup_database world_seen_1) \<and>
   \<not> contains ''https://x/jobs/2'' (setup_database world_seen_1) \<and>
   fst (find_new_job_links demo_env_seen_1 TARGET_URL (setup_database world_seen_1)) =
     Inr [''https://x/jobs/2''] \<and>
   fst (main demo_env_seen_1 world_seen_1) = None \<and>
   processed (trace (snd (main demo_env_seen_1 world_seen_1))) = {''https://x/jobs/2''}"
proof -
  have h1: "resume_txt demo_env_seen_1 = Inr ''Python and SQL''"
    by (simp add: demo_env_seen_1_def demo_env_def)
  have h2: "page_hrefs demo_env_seen_1 TARGET_URL =
      Inr [Some ''https://x/jobs/1'', Some ''https://x/jobs/2'']"
    by (simp add: demo_env_seen_1_def demo_env_def)
  have c: "contains ''https://x/jobs/1'' (setup_database world_seen_1)"
    "\<not> contains ''https://x/jobs/2'' (setup_database world_seen_1)"
    by (simp_all add: contains_def is_url_new_def setup_database_def world_seen_1_def)
  have n: "fst (main demo_env_seen_1 world_seen_1) = None"
    by (simp only: seen_1_run fst_conv)
  have t0: "trace world_seen_1 = []" by (simp add: world_seen_1_def)
  obtain new evs where
    a: "fst (find_new_job_links demo_env_seen_1 TARGET_URL (setup_database world_seen_1)) = Inr new"
    and b: "trace (snd (main demo_env_seen_1 world_seen_1)) = trace world_seen_1 @ evs"
    and e: "fst (main demo_env_seen_1 world_seen_1) = None \<longrightarrow> processed evs = set new"
    using run_processes_filtered [OF h1 h2 seen_1_discover, of world_seen_1]
    by (elim exE conjE) (rule that)
  have new: "new = [''https://x/jobs/2'']" using a by (simp only: seen_1_filtered sum.inject)
  have "processed (trace (snd (main demo_env_seen_1 world_seen_1))) = {''https://x/jobs/2''}"
    using b e n new t0 by simp
  with h1 h2 seen_1_discover c seen_1_filtered n show ?thesis by (intro conjI)
qed

lemma no_choices_main:
  "main demo_env_no_choices \<lparr>db = None, trace = []\<rparr> =
     (Some IndexError,
      \<lparr>db = Some [],
       trace =
         [Print (MsgScraping TARGET_URL), Print (MsgFound 2), Print (MsgProcessing demo_url),
          Post (api_request demo_env_no_choices ''Intern, data team'' ''Python and SQL'')]\<rparr>)"
  by (simp add: main_def setup_database_def demo_env_no_choices_def demo_env_def
      find_new_job_links_def emit_def resolve_href_def is_url_new_def list_of_set_def
      demo_url_def demo_url2_def
      get_clean_text_from_url_def analyze_with_deepseek_def try_body_def
      raise_for_status_def response_json_def result_content_of_def except_clauses_def
      demo_loads_more)

lemma no_choices_filtered:
  "fst (find_new_job_links demo_env_no_choices TARGET_URL
          (setup_database \<lparr>db = None, trace = []\<rparr>)) = Inr [demo_url, demo_url2]"
  by (simp add: setup_database_def demo_env_no_choices_def demo_env_def
      find_new_job_links_def emit_def resolve_href_def is_url_new_def list_of_set_def
      demo_url_def demo_url2_def)

text \<open>
  The statement of the specification fails for a run that an exception ends: the filter
  returns two identifiers, the reply for the first has no choices, and the second is never
  processed.
\<close>

theorem run_processes_filtered_counterexample:
  "fst (find_new_job_links demo_env_no_choices TARGET_URL
          (setup_database \<lparr>db = None, trace = []\<rparr>)) = Inr [demo_url, demo_url2] \<and>
   fst (main demo_env_no_choices \<lparr>db = None, trace = []\<rparr>) = Some IndexError \<and>
   processed (trace (snd (main demo_env_no_choices \<lparr>db = None, trace = []\<rparr>))) = {demo_url} \<and>
   demo_url2 \<noteq> demo_url"
  unfolding no_choices_main no_choices_filtered
  by (simp add: processed_Cons processed_simps demo_url_def demo_url2_def)

subsection \<open>Fail-open to retry\<close>

lemma AnalysisResult_truthy: "AnalysisResult a \<Longrightarrow> truthy a"
  by (cases a) (auto simp: AnalysisResult_def field_def)











end
